theory Spec2Isabelle
  imports Main
begin

section \<open>Structured values and dictionaries\<close>

text \<open>
  Payloads, chunks and the stitched document are Python values built from \<open>None\<close>,
  booleans, integers, strings, lists and dictionaries. A dictionary is an association
  list in insertion order with one entry for each key, as a Python \<open>dict\<close> keeps it.
\<close>

datatype json =
    JNull
  | JBool bool
  | JInt int
  | JStr string
  | JList "json list"
  | JObj "(string \<times> json) list"

type_synonym 'v dict = "(string \<times> 'v) list"

text \<open>\<open>d[k] = v\<close>: an existing key keeps its place, a new key goes to the end.\<close>

fun dict_set :: "string \<Rightarrow> 'v \<Rightarrow> 'v dict \<Rightarrow> 'v dict" where
  "dict_set k v [] = [(k, v)]"
| "dict_set k v ((k', v') # kvs) =
     (if k' = k then (k, v) # kvs else (k', v') # dict_set k v kvs)"

text \<open>\<open>d.get(k, default)\<close>.\<close>

definition dict_get :: "'v dict \<Rightarrow> string \<Rightarrow> 'v \<Rightarrow> 'v" where
  "dict_get d k dflt = (case map_of d k of None \<Rightarrow> dflt | Some v \<Rightarrow> v)"

text \<open>\<open>set(d.keys())\<close>.\<close>

definition keys :: "'v dict \<Rightarrow> string set" where
  "keys d = set (map fst d)"

text \<open>\<open>v[k]\<close> on a value that may or may not be a dictionary holding \<open>k\<close>.\<close>

fun lookup :: "json \<Rightarrow> string \<Rightarrow> json option" where
  "lookup (JObj d) k = map_of d k"
| "lookup _ k = None"

fun is_text :: "json \<Rightarrow> bool" where
  "is_text (JStr s) = True"
| "is_text _ = False"

fun is_dict :: "json \<Rightarrow> bool" where
  "is_dict (JObj d) = True"
| "is_dict _ = False"

section \<open>Messages (\<open>llmstack/play/messages.py\<close>)\<close>

datatype MessageType =
    BEGIN
  | CONTENT
  | CONTENT_STREAM_CHUNK
  | CONTENT_STREAM_BEGIN
  | CONTENT_STREAM_END
  | ERRORS

record Error =
  code :: int
  message :: string

text \<open>
  \<open>ContentData.content\<close> is typed \<open>Any\<close>; the aggregator tells a pydantic model
  object (kept here as its field dictionary) from any other value.
\<close>

datatype content_value =
    Plain json
  | BaseModel "json dict"

datatype MessageData =
    ContentData content_value
  | ContentStreamChunkData json
  | ErrorsData "Error list"
  | Dict "json dict"

record Message =
  msg_id :: string
  msg_type :: MessageType
  sender :: string
  receiver :: "string option"
  reply_to :: "string option"
  data :: "MessageData option"

datatype exception = ValidationError | AttributeError

text \<open>The values of the string enumeration \<open>MessageType\<close>.\<close>

definition MessageType_of :: "string \<Rightarrow> MessageType option" where
  "MessageType_of s =
     (if s = ''BEGIN'' then Some BEGIN
      else if s = ''CONTENT'' then Some CONTENT
      else if s = ''CONTENT_STREAM_CHUNK'' then Some CONTENT_STREAM_CHUNK
      else if s = ''CONTENT_STREAM_BEGIN'' then Some CONTENT_STREAM_BEGIN
      else if s = ''CONTENT_STREAM_END'' then Some CONTENT_STREAM_END
      else if s = ''ERRORS'' then Some ERRORS
      else None)"

text \<open>The keyword arguments of \<open>Message(...)\<close>; \<open>None\<close> is an argument left out.\<close>

record Message_kwargs =
  kw_id :: "string option"
  kw_type :: "string option"
  kw_sender :: "string option"
  kw_receiver :: "string option"
  kw_reply_to :: "string option"
  kw_data :: "MessageData option"

text \<open>
  The field \<open>data\<close> is declared
  \<open>Optional[Union[ContentData, ContentStreamChunkData, ErrorsData, Dict]]\<close>, and the
  constructor validates the argument against the members of the union. An object of one
  of the three payload classes is kept. A plain dictionary becomes an object of the first
  class, in the order of the declaration, whose fields it provides with the declared types
  (keys that are not fields of the class are dropped); a dictionary that provides the
  fields of none of them is kept as a dictionary. \<open>ContentData.content\<close> and
  \<open>ContentStreamChunkData.chunk\<close> are typed \<open>Any\<close>;
  \<open>ErrorsData.errors\<close> is a list of \<open>Error\<close>, with \<open>message\<close> a string
  and \<open>code\<close> an integer that defaults to \<open>-1\<close>.
\<close>

fun Error_of :: "json \<Rightarrow> Error option" where
  "Error_of (JObj d) =
     (case map_of d ''message'' of
        Some (JStr s) \<Rightarrow>
          (case map_of d ''code'' of
             None \<Rightarrow> Some \<lparr>code = - 1, message = s\<rparr>
           | Some (JInt n) \<Rightarrow> Some \<lparr>code = n, message = s\<rparr>
           | Some _ \<Rightarrow> None)
      | _ \<Rightarrow> None)"
| "Error_of _ = None"

fun validate_data :: "MessageData \<Rightarrow> MessageData" where
  "validate_data (Dict d) =
     (case map_of d ''content'' of
        Some v \<Rightarrow> ContentData (Plain v)
      | None \<Rightarrow>
          (case map_of d ''chunk'' of
             Some ch \<Rightarrow> ContentStreamChunkData ch
           | None \<Rightarrow>
               (case map_of d ''errors'' of
                  Some (JList es) \<Rightarrow>
                    (case those (map Error_of es) of
                       Some errs \<Rightarrow> ErrorsData errs
                     | None \<Rightarrow> Dict d)
                | _ \<Rightarrow> Dict d)))"
| "validate_data payload = payload"

text \<open>
  \<open>Message(...)\<close>. The class body reads \<open>id: str = str(uuid.uuid4())\<close>: the call
  \<open>uuid.uuid4()\<close> runs once, when the class is defined, and its result
  \<open>class_default_id\<close> is the default of the field from then on. The fields \<open>type\<close>
  and \<open>sender\<close> have no default and \<open>type\<close> must be a value of the enumeration;
  the class declares no validator that relates \<open>data\<close> to \<open>type\<close>.
\<close>

definition Message_init :: "string \<Rightarrow> Message_kwargs \<Rightarrow> exception + Message" where
  "Message_init class_default_id kw =
     (case kw_type kw of
        None \<Rightarrow> Inl ValidationError
      | Some ts \<Rightarrow>
          (case MessageType_of ts of
             None \<Rightarrow> Inl ValidationError
           | Some t \<Rightarrow>
               (case kw_sender kw of
                  None \<Rightarrow> Inl ValidationError
                | Some s \<Rightarrow>
                    Inr \<lparr>msg_id = (case kw_id kw of None \<Rightarrow> class_default_id | Some i \<Rightarrow> i),
                         msg_type = t,
                         sender = s,
                         receiver = kw_receiver kw,
                         reply_to = kw_reply_to kw,
                         data = map_option validate_data (kw_data kw)\<rparr>)))"

text \<open>
  The attribute reads \<open>message.data.errors\<close>, \<open>message.data.chunk\<close> and
  \<open>message.data.content\<close>: \<open>None\<close>, a plain dictionary and a payload object of
  another class have no such attribute.
\<close>

definition data_errors :: "Message \<Rightarrow> exception + Error list" where
  "data_errors m = (case data m of Some (ErrorsData es) \<Rightarrow> Inr es | _ \<Rightarrow> Inl AttributeError)"

definition data_chunk :: "Message \<Rightarrow> exception + json" where
  "data_chunk m =
     (case data m of Some (ContentStreamChunkData c) \<Rightarrow> Inr c | _ \<Rightarrow> Inl AttributeError)"

definition data_content :: "Message \<Rightarrow> exception + content_value" where
  "data_content m = (case data m of Some (ContentData v) \<Rightarrow> Inr v | _ \<Rightarrow> Inl AttributeError)"

section \<open>Collaborators of the aggregator\<close>

text \<open>
  \<open>on_receive\<close> calls four functions that are defined elsewhere: the merge
  \<open>stitch_model_objects\<close>, the template engine \<open>render_template\<close>, the delta
  \<open>DiffMatchPatch.to_delta\<close> and the bookkeeping sink \<open>bookkeep\<close>. They are
  parameters of the model. Each may raise inside the \<open>try\<close> block: \<open>None\<close> (for
  the sink: \<open>False\<close>) is a raised exception.
\<close>

record collaborators =
  stitch :: "json \<Rightarrow> json \<Rightarrow> json option"
  render_template :: "string \<Rightarrow> json \<Rightarrow> string option"
  to_delta :: "string \<Rightarrow> string \<Rightarrow> string option"
  bookkeep :: "string dict \<Rightarrow> bool"

text \<open>
  Modelled from the spec: \<open>stitch_model_objects\<close> of
  \<open>llmstack/play/output_stream.py\<close>, which is not among the sources. The merge engine
  of the specification: two mappings are merged key by key, recursively; a list or a
  scalar of the new contribution replaces what the accumulated document held.
\<close>

fun stitch_model_objects :: "json \<Rightarrow> json \<Rightarrow> json"
  and stitch_fields :: "json dict \<Rightarrow> json dict \<Rightarrow> json dict" where
  "stitch_model_objects (JObj a) (JObj b) = JObj (stitch_fields a b)"
| "stitch_model_objects a b = b"
| "stitch_fields a [] = a"
| "stitch_fields a ((k, v) # rest) =
     stitch_fields
       (dict_set k (case map_of a k of None \<Rightarrow> v | Some old \<Rightarrow> stitch_model_objects old v) a)
       rest"

text \<open>
  The collaborators used where a statement needs concrete ones: the merge engine above, a
  template engine on templates without placeholders (the text comes back as it is), the
  delta that transmits the next text whole (the replace-all script of the specification)
  and a sink that accepts every record.
\<close>

definition plain_collaborators :: collaborators where
  "plain_collaborators =
     \<lparr>stitch = (\<lambda>acc x. Some (stitch_model_objects acc x)),
      render_template = (\<lambda>t d. Some t),
      to_delta = (\<lambda>prev new. Some new),
      bookkeep = (\<lambda>out. True)\<rparr>"

section \<open>The output actor (\<open>llmstack/apps/runner/output_actor.py\<close>)\<close>

text \<open>
  What \<open>on_receive\<close> puts into the queue. The incremental fragment is a fresh
  dictionary \<open>{"deltas": {"output": delta}, "chunk": {sender: chunk}}\<close>. The
  terminal success fragment \<open>{"output": self._int_output, "chunks": self._messages}\<close>
  holds the two dictionaries of the actor themselves, not copies: what a reader finds in
  it is what the actor holds at the time of reading.
\<close>

datatype fragment =
    Incremental string string json
  | Terminal_success

text \<open>
  The state of the actor. The base class \<open>Actor\<close> is not among the sources; of what it
  keeps, the model has the dependencies given to \<open>__init__\<close>.
\<close>

record OutputActor =
  dependencies :: "string list"
  templates :: "string dict"
  spread_output_for_keys :: "string set"
  stitched_data :: json
  int_output :: "string dict"
  errors :: "Error list option"
  stopped :: bool
  content_queue :: "fragment list"
  messages :: "json dict"

definition reset :: "OutputActor \<Rightarrow> OutputActor" where
  "reset a =
     a\<lparr>stitched_data := JObj [], int_output := [], errors := None, stopped := False,
       content_queue := [], messages := []\<rparr>"

definition OutputActor_init :: "string list \<Rightarrow> string dict \<Rightarrow> string set \<Rightarrow> OutputActor" where
  "OutputActor_init deps tmpls spread =
     reset \<lparr>dependencies = deps, templates = tmpls, spread_output_for_keys = spread,
            stitched_data = JNull, int_output = [], errors = None, stopped = False,
            content_queue = [], messages = []\<rparr>"

definition on_error :: "OutputActor \<Rightarrow> string \<Rightarrow> Error list \<Rightarrow> OutputActor" where
  "on_error a sndr es = a\<lparr>errors := Some es\<rparr>"

definition on_stop :: "OutputActor \<Rightarrow> OutputActor" where
  "on_stop a = a\<lparr>stopped := True\<rparr>"

text \<open>
  The \<open>try\<close> block of \<open>on_receive\<close>. An exception leaves the block at the
  statement that raised it, is logged, and the assignments made before it stay:
  \<open>_stitched_data\<close> is assigned before the template is looked up and rendered,
  \<open>_int_output["output"]\<close> before the bookkeeping call.
\<close>

definition receive_chunk :: "collaborators \<Rightarrow> OutputActor \<Rightarrow> Message \<Rightarrow> OutputActor" where
  "receive_chunk c a m =
     (case data_chunk m of
        Inl e \<Rightarrow> a
      | Inr ch \<Rightarrow>
          (case stitch c (stitched_data a)
                  (if sender m \<notin> spread_output_for_keys a then JObj [(sender m, ch)] else ch) of
             None \<Rightarrow> a
           | Some st \<Rightarrow>
               (let a1 = a\<lparr>stitched_data := st\<rparr> in
                case map_of (templates a1) ''output'' of
                  None \<Rightarrow> a1
                | Some t \<Rightarrow>
                    (case render_template c t (stitched_data a1) of
                       None \<Rightarrow> a1
                     | Some new_int_output \<Rightarrow>
                         (case to_delta c (dict_get (int_output a1) ''output'' '''') new_int_output of
                            None \<Rightarrow> a1
                          | Some delta \<Rightarrow>
                              (let a2 = a1\<lparr>int_output :=
                                            dict_set ''output'' new_int_output (int_output a1)\<rparr> in
                               if bookkeep c (int_output a2)
                               then a2\<lparr>content_queue :=
                                         content_queue a2 @ [Incremental delta (sender m) ch]\<rparr>
                               else a2))))))"

text \<open>\<open>model_dump()\<close> of a model object, any other content as it is.\<close>

fun plain_content :: "content_value \<Rightarrow> json" where
  "plain_content (BaseModel fs) = JObj fs"
| "plain_content (Plain j) = j"

definition on_receive :: "collaborators \<Rightarrow> OutputActor \<Rightarrow> Message \<Rightarrow> exception + OutputActor" where
  "on_receive c a m =
     (if msg_type m = ERRORS then
        (case data_errors m of
           Inl e \<Rightarrow> Inl e
         | Inr es \<Rightarrow> Inr (on_error a (sender m) es))
      else
        (let a1 = (if msg_type m = CONTENT_STREAM_CHUNK then receive_chunk c a m else a) in
         if msg_type m = CONTENT then
           (case data_content m of
              Inl e \<Rightarrow> Inl e
            | Inr v \<Rightarrow>
                (let a2 = a1\<lparr>messages := dict_set (sender m) (plain_content v) (messages a1)\<rparr> in
                 Inr (if set (dependencies a2) = keys (messages a2)
                      then a2\<lparr>content_queue := content_queue a2 @ [Terminal_success]\<rparr>
                      else a2)))
         else Inr a1))"

text \<open>
  One delivery by the dispatch surface. Where \<open>on_receive\<close> raises, it does so in
  evaluating the right-hand side or the argument, before anything is assigned: the actor
  is as it was.
\<close>

definition deliver :: "collaborators \<Rightarrow> OutputActor \<Rightarrow> Message \<Rightarrow> OutputActor" where
  "deliver c a m = (case on_receive c a m of Inl e \<Rightarrow> a | Inr a' \<Rightarrow> a')"

fun run :: "collaborators \<Rightarrow> OutputActor \<Rightarrow> Message list \<Rightarrow> OutputActor" where
  "run c a [] = a"
| "run c a (m # ms) = run c (deliver c a m) ms"

subsection \<open>The stream \<open>get_output\<close>\<close>

text \<open>The dictionary a reader of the queue finds, read while the actor is \<open>a\<close>.\<close>

fun fragment_value :: "OutputActor \<Rightarrow> fragment \<Rightarrow> json" where
  "fragment_value a (Incremental delta sndr ch) =
     JObj [(''deltas'', JObj [(''output'', JStr delta)]), (''chunk'', JObj [(sndr, ch)])]"
| "fragment_value a Terminal_success =
     JObj [(''output'', JObj (map (\<lambda>(k, v). (k, JStr v)) (int_output a))),
           (''chunks'', JObj (messages a))]"

text \<open>Truth value of \<open>self._errors\<close>: \<open>None\<close> and the empty list are false.\<close>

definition has_errors :: "OutputActor \<Rightarrow> bool" where
  "has_errors a = (case errors a of None \<Rightarrow> False | Some es \<Rightarrow> es \<noteq> [])"

definition errors_fragment :: "Error list \<Rightarrow> json" where
  "errors_fragment es = JObj [(''errors'', JList (map (\<lambda>e. JStr (message e)) es))]"

definition interrupted_fragment :: json where
  "interrupted_fragment = JObj [(''errors'', JList [JStr ''Output interrupted''])]"

text \<open>The \<open>finally\<close> clause.\<close>

definition finally_fragments :: "OutputActor \<Rightarrow> json list" where
  "finally_fragments a =
     (case errors a of
        Some (e # es) \<Rightarrow> [errors_fragment (e # es)]
      | _ \<Rightarrow> if stopped a then [interrupted_fragment] else [])"

text \<open>
  The actor together with one consumer of \<open>get_output\<close>: whether the generator has
  returned, and what it has yielded so far.
\<close>

record system =
  actor :: OutputActor
  ended :: bool
  yielded :: "json list"

text \<open>
  One turn of the \<open>while True\<close> loop: a fragment is taken from the queue and yielded;
  or the queue is empty and the loop is left for the \<open>finally\<close> clause, after which
  the generator has returned; or the consumer sleeps and nothing changes. A generator
  that has returned yields nothing more. The cancellation of the consumer's task while it
  sleeps (the \<open>except\<close> clause) is not an event of the model.
\<close>

definition get_output_turn :: "system \<Rightarrow> system" where
  "get_output_turn s =
     (if ended s then s
      else
        (case content_queue (actor s) of
           q # qs \<Rightarrow>
             s\<lparr>actor := (actor s)\<lparr>content_queue := qs\<rparr>,
               yielded := yielded s @ [fragment_value (actor s) q]\<rparr>
         | [] \<Rightarrow>
             if has_errors (actor s) \<or> stopped (actor s)
             then s\<lparr>ended := True, yielded := yielded s @ finally_fragments (actor s)\<rparr>
             else s))"

text \<open>
  What happens to the system: the dispatch surface delivers a message, the run is
  stopped, or the consumer takes a turn of its loop. A schedule is a list of such events,
  so that deliveries and turns of the consumer interleave in any order.
\<close>

datatype event = Receive Message | Stop | Turn

fun step :: "collaborators \<Rightarrow> system \<Rightarrow> event \<Rightarrow> system" where
  "step c s (Receive m) = s\<lparr>actor := deliver c (actor s) m\<rparr>"
| "step c s Stop = s\<lparr>actor := on_stop (actor s)\<rparr>"
| "step c s Turn = get_output_turn s"

fun exec :: "collaborators \<Rightarrow> system \<Rightarrow> event list \<Rightarrow> system" where
  "exec c s [] = s"
| "exec c s (ev # evs) = exec c (step c s ev) evs"

definition start :: "OutputActor \<Rightarrow> system" where
  "start a = \<lparr>actor = a, ended = False, yielded = []\<rparr>"

section \<open>Notions of the statements\<close>

text \<open>
  A message delivers content when \<open>on_receive\<close> records it in \<open>_messages\<close>: its
  type is \<open>CONTENT\<close> and its payload has the attribute \<open>content\<close>.
\<close>

definition delivers_content :: "Message \<Rightarrow> bool" where
  "delivers_content m =
     (msg_type m = CONTENT \<and> (case data m of Some (ContentData v) \<Rightarrow> True | _ \<Rightarrow> False))"

definition content_senders :: "Message list \<Rightarrow> string list" where
  "content_senders ms = map sender (filter delivers_content ms)"

text \<open>
  The fragments that the deliveries of \<open>ms\<close> put into the queue of \<open>a\<close>, in order:
  \<open>on_receive\<close> only appends, so they are what the queue holds beyond its former
  length. Among them, the terminal success fragments are counted.
\<close>

definition pushed :: "collaborators \<Rightarrow> OutputActor \<Rightarrow> Message list \<Rightarrow> fragment list" where
  "pushed c a ms = drop (length (content_queue a)) (content_queue (run c a ms))"

definition terminal_pushes :: "collaborators \<Rightarrow> OutputActor \<Rightarrow> Message list \<Rightarrow> nat" where
  "terminal_pushes c a ms = count_list (pushed c a ms) Terminal_success"

text \<open>A terminal failure fragment: a dictionary with the single key \<open>errors\<close>.\<close>

fun is_errors_fragment :: "json \<Rightarrow> bool" where
  "is_errors_fragment (JObj [(k, v)]) = (k = ''errors'')"
| "is_errors_fragment _ = False"

text \<open>How many terminal failure fragments the consumer has been given.\<close>

definition errors_yielded :: "system \<Rightarrow> nat" where
  "errors_yielded s = length (filter is_errors_fragment (yielded s))"

text \<open>
  The content that sender \<open>k\<close> delivered last in \<open>ms\<close>, as \<open>on_receive\<close>
  stores it.
\<close>

fun final_content :: "Message list \<Rightarrow> string \<Rightarrow> json option" where
  "final_content [] k = None"
| "final_content (m # ms) k =
     (case final_content ms k of
        Some v \<Rightarrow> Some v
      | None \<Rightarrow>
          (case data m of
             Some (ContentData v) \<Rightarrow>
               if msg_type m = CONTENT \<and> sender m = k then Some (plain_content v) else None
           | _ \<Rightarrow> None))"

text \<open>
  The two forms \<open>_int_output\<close> takes: empty, or the one entry \<open>output\<close>.
\<close>

definition output_shaped :: "string dict \<Rightarrow> bool" where
  "output_shaped d =
     (d = (case map_of d ''output'' of None \<Rightarrow> [] | Some t \<Rightarrow> [(''output'', t)]))"


text \<open>Messages of the examples, with the identifier written out.\<close>

definition message_of :: "MessageType \<Rightarrow> string \<Rightarrow> MessageData option \<Rightarrow> Message" where
  "message_of t s d =
     \<lparr>msg_id = ''0'', msg_type = t, sender = s, receiver = None, reply_to = None, data = d\<rparr>"

definition content_from :: "string \<Rightarrow> string \<Rightarrow> Message" where
  "content_from s v = message_of CONTENT s (Some (ContentData (Plain (JStr v))))"

definition chunk_from :: "string \<Rightarrow> json \<Rightarrow> Message" where
  "chunk_from s ch = message_of CONTENT_STREAM_CHUNK s (Some (ContentStreamChunkData ch))"

definition errors_from :: "string \<Rightarrow> string list \<Rightarrow> Message" where
  "errors_from s msgs =
     message_of ERRORS s (Some (ErrorsData (map (\<lambda>t. \<lparr>code = - 1, message = t\<rparr>) msgs)))"

section \<open>Dictionaries\<close>

lemma map_of_dict_set: "map_of (dict_set k v d) k' = (if k' = k then Some v else map_of d k')"
  by (induction d) auto

lemma keys_dom: "keys d = dom (map_of d)"
  by (simp add: keys_def dom_map_of_conv_image_fst)

lemma keys_dict_set: "keys (dict_set k v d) = insert k (keys d)"
  by (auto simp: keys_dom map_of_dict_set dom_def)

section \<open>What a delivery changes\<close>

lemma receive_chunk_messages: "messages (receive_chunk c a m) = messages a"
  by (simp add: receive_chunk_def Let_def split: sum.splits option.splits)

lemma receive_chunk_dependencies: "dependencies (receive_chunk c a m) = dependencies a"
  by (simp add: receive_chunk_def Let_def split: sum.splits option.splits)

lemma receive_chunk_errors: "errors (receive_chunk c a m) = errors a"
  by (simp add: receive_chunk_def Let_def split: sum.splits option.splits)

lemma receive_chunk_queue:
  "\<exists>xs. content_queue (receive_chunk c a m) = content_queue a @ xs \<and>
        count_list xs Terminal_success = 0"
  by (simp add: receive_chunk_def Let_def split: sum.splits option.splits)

lemma deliver_dependencies: "dependencies (deliver c a m) = dependencies a"
  by (simp add: deliver_def on_receive_def on_error_def Let_def receive_chunk_dependencies
      split: sum.splits)

lemma deliver_keys:
  "keys (messages (deliver c a m)) =
     (if delivers_content m then insert (sender m) (keys (messages a)) else keys (messages a))"
  by (auto simp: deliver_def on_receive_def on_error_def Let_def receive_chunk_messages
      keys_dict_set data_content_def delivers_content_def
      split: sum.splits option.splits MessageData.splits)

lemma deliver_queue:
  "\<exists>xs. content_queue (deliver c a m) = content_queue a @ xs \<and>
        count_list xs Terminal_success =
          (if delivers_content m \<and> set (dependencies a) = insert (sender m) (keys (messages a))
           then 1 else 0)"
proof (cases "msg_type m = CONTENT")
  case True
  then show ?thesis
    by (auto simp: deliver_def on_receive_def Let_def keys_dict_set
        data_content_def delivers_content_def
        split: sum.splits option.splits MessageData.splits)
next
  case False
  then have "deliver c a m = a \<or> deliver c a m = on_error a (sender m) (projr (data_errors m))
      \<or> deliver c a m = receive_chunk c a m"
    by (auto simp: deliver_def on_receive_def Let_def split: sum.splits)
  with False receive_chunk_queue [of c a m] show ?thesis
    by (auto simp: delivers_content_def on_error_def)
qed

lemma run_append: "run c a (ms @ ms') = run c (run c a ms) ms'"
  by (induction ms arbitrary: a) auto

lemma run_dependencies: "dependencies (run c a ms) = dependencies a"
  by (induction ms arbitrary: a) (auto simp: deliver_dependencies)

lemma run_keys: "keys (messages (run c a ms)) = keys (messages a) \<union> set (content_senders ms)"
  by (induction ms arbitrary: a) (auto simp: deliver_keys content_senders_def)

lemma run_queue: "content_queue (run c a ms) = content_queue a @ pushed c a ms"
proof -
  have "\<exists>xs. content_queue (run c a ms) = content_queue a @ xs"
  proof (induction ms arbitrary: a)
    case Nil
    show ?case by simp
  next
    case (Cons m ms)
    from Cons [of "deliver c a m"] deliver_queue [of c a m] show ?case by auto
  qed
  then show ?thesis by (auto simp: pushed_def)
qed

lemma pushed_append: "pushed c a (ms @ ms') = pushed c a ms @ pushed c (run c a ms) ms'"
proof -
  have "content_queue a @ pushed c a (ms @ ms') =
        content_queue a @ pushed c a ms @ pushed c (run c a ms) ms'"
    using run_queue [of c a "ms @ ms'"] run_queue [of c "run c a ms" ms'] run_queue [of c a ms]
    by (simp add: run_append)
  then show ?thesis by simp
qed

lemma pushed_single:
  "count_list (pushed c a [m]) Terminal_success =
     (if delivers_content m \<and> set (dependencies a) = insert (sender m) (keys (messages a))
      then 1 else 0)"
proof -
  from deliver_queue [of c a m] obtain xs where
    xs: "content_queue (deliver c a m) = content_queue a @ xs"
    and n: "count_list xs Terminal_success =
      (if delivers_content m \<and> set (dependencies a) = insert (sender m) (keys (messages a))
       then 1 else 0)"
    by blast
  from xs have "pushed c a [m] = xs" by (simp add: pushed_def)
  with n show ?thesis by simp
qed

lemma terminal_pushes_snoc:
  "terminal_pushes c a (ms @ [m]) =
     terminal_pushes c a ms +
       (if delivers_content m \<and>
           set (dependencies a) = keys (messages a) \<union> set (content_senders (ms @ [m]))
        then 1 else 0)"
  by (auto simp: terminal_pushes_def pushed_append pushed_single run_dependencies run_keys
      content_senders_def)

lemma reset_fields:
  "messages (reset a) = []" "content_queue (reset a) = []" "dependencies (reset a) = dependencies a"
  by (simp_all add: reset_def)

lemma terminal_pushes_gated:
  "terminal_pushes c (reset a) ms > 0 \<Longrightarrow> set (dependencies a) \<subseteq> set (content_senders ms)"
proof (induction ms rule: rev_induct)
  case Nil
  then show ?case by (simp add: terminal_pushes_def pushed_def)
next
  case (snoc m ms)
  show ?case
  proof (cases "terminal_pushes c (reset a) ms > 0")
    case True
    with snoc.IH show ?thesis by (auto simp: content_senders_def)
  next
    case False
    with snoc.prems show ?thesis
      by (auto simp: terminal_pushes_snoc reset_fields keys_def split: if_splits)
  qed
qed

lemma terminal_pushes_once:
  "dependencies a \<noteq> [] \<Longrightarrow> set (content_senders ms) = set (dependencies a) \<Longrightarrow>
   distinct (content_senders ms) \<Longrightarrow> terminal_pushes c (reset a) ms = 1"
proof (induction ms rule: rev_induct)
  case Nil
  then show ?case by (simp add: content_senders_def)
next
  case (snoc m ms)
  show ?case
  proof (cases "delivers_content m")
    case False
    with snoc show ?thesis
      by (simp add: terminal_pushes_snoc content_senders_def)
  next
    case True
    with snoc.prems have "sender m \<notin> set (content_senders ms)"
      by (simp add: content_senders_def)
    moreover from True snoc.prems have "sender m \<in> set (dependencies a)"
      by (auto simp: content_senders_def)
    ultimately have "\<not> set (dependencies a) \<subseteq> set (content_senders ms)" by auto
    with terminal_pushes_gated [of c a ms] have "terminal_pushes c (reset a) ms = 0" by auto
    with True snoc.prems show ?thesis
      by (simp add: terminal_pushes_snoc reset_fields keys_def)
  qed
qed

lemma terminal_pushes_no_dependencies:
  "dependencies a = [] \<Longrightarrow> terminal_pushes c (reset a) ms = 0"
proof (induction ms rule: rev_induct)
  case Nil
  then show ?case by (simp add: terminal_pushes_def pushed_def)
next
  case (snoc m ms)
  then show ?case
    by (auto simp: terminal_pushes_snoc reset_fields keys_def content_senders_def)
qed

section \<open>Completion\<close>

text \<open>
  C1, as the specification states it: for every dependency set, exactly one terminal
  success fragment is pushed once every dependency has delivered its content. It fails
  for the empty dependency set, the default of \<open>__init__\<close>: there every dependency
  has delivered from the start, and no terminal success fragment is pushed.
\<close>

theorem completion_gating_counterexample:
  "set (dependencies (OutputActor_init [] [] {})) \<subseteq> set (content_senders [])
   \<and> terminal_pushes plain_collaborators (OutputActor_init [] [] {}) [] = 0"
  by code_simp

text \<open>
  C1, amended. In a run that starts from the reset actor, no terminal success fragment
  is pushed while some dependency has not delivered content. When the dependencies are
  not empty and, as the data model has it, content comes from dependencies only and from
  none of them twice, exactly one terminal success fragment is pushed once all of them
  have delivered, and none before, in whatever order the contents arrive. It is pushed by
  the message that completes them: a message pushes one exactly when it delivers content
  and the senders that have delivered content, this one included, are then exactly the
  dependencies. With no dependencies, none is ever pushed.
\<close>

theorem completion_gating:
  "(\<not> set (dependencies a) \<subseteq> set (content_senders ms) \<longrightarrow>
      terminal_pushes c (reset a) ms = 0)
   \<and> (dependencies a \<noteq> [] \<and> set (content_senders ms) \<subseteq> set (dependencies a)
        \<and> distinct (content_senders ms) \<longrightarrow>
      terminal_pushes c (reset a) ms =
        (if set (dependencies a) \<subseteq> set (content_senders ms) then 1 else 0))
   \<and> terminal_pushes c (reset a) (ms @ [m]) =
       terminal_pushes c (reset a) ms +
         (if delivers_content m \<and> set (content_senders (ms @ [m])) = set (dependencies a)
          then 1 else 0)
   \<and> (dependencies a = [] \<longrightarrow> terminal_pushes c (reset a) ms = 0)"
proof (intro conjI impI)
  assume "\<not> set (dependencies a) \<subseteq> set (content_senders ms)"
  with terminal_pushes_gated [of c a ms] show "terminal_pushes c (reset a) ms = 0"
    by auto
next
  assume h: "dependencies a \<noteq> [] \<and> set (content_senders ms) \<subseteq> set (dependencies a)
        \<and> distinct (content_senders ms)"
  show "terminal_pushes c (reset a) ms =
        (if set (dependencies a) \<subseteq> set (content_senders ms) then 1 else 0)"
  proof (cases "set (dependencies a) \<subseteq> set (content_senders ms)")
    case True
    with h have "set (content_senders ms) = set (dependencies a)" by auto
    with h True show ?thesis by (simp add: terminal_pushes_once)
  next
    case False
    with terminal_pushes_gated [of c a ms] show ?thesis by auto
  qed
next
  show "terminal_pushes c (reset a) (ms @ [m]) =
       terminal_pushes c (reset a) ms +
         (if delivers_content m \<and> set (content_senders (ms @ [m])) = set (dependencies a)
          then 1 else 0)"
    by (auto simp: terminal_pushes_snoc reset_fields keys_def)
next
  assume "dependencies a = []"
  then show "terminal_pushes c (reset a) ms = 0"
    by (rule terminal_pushes_no_dependencies)
qed

text \<open>
  The amended statement at the dependencies \<open>A\<close> and \<open>B\<close>: nothing after \<open>B\<close>
  alone, one terminal success fragment after \<open>B\<close> and then \<open>A\<close>; and nothing
  with no dependencies.
\<close>

theorem completion_gating_witness:
  "\<not> set (dependencies (OutputActor_init [''A'', ''B''] [] {}))
       \<subseteq> set (content_senders [content_from ''B'' ''done-B''])
   \<and> terminal_pushes plain_collaborators (reset (OutputActor_init [''A'', ''B''] [] {}))
       [content_from ''B'' ''done-B''] = 0
   \<and> dependencies (OutputActor_init [''A'', ''B''] [] {}) \<noteq> []
   \<and> set (content_senders [content_from ''B'' ''done-B'', content_from ''A'' ''done-A''])
       \<subseteq> set (dependencies (OutputActor_init [''A'', ''B''] [] {}))
   \<and> distinct (content_senders [content_from ''B'' ''done-B'', content_from ''A'' ''done-A''])
   \<and> set (dependencies (OutputActor_init [''A'', ''B''] [] {}))
       \<subseteq> set (content_senders [content_from ''B'' ''done-B'', content_from ''A'' ''done-A''])
   \<and> terminal_pushes plain_collaborators (reset (OutputActor_init [''A'', ''B''] [] {}))
       [content_from ''B'' ''done-B'', content_from ''A'' ''done-A''] = 1
   \<and> dependencies (OutputActor_init [] [] {}) = []
   \<and> terminal_pushes plain_collaborators (reset (OutputActor_init [] [] {}))
       [chunk_from ''A'' (JObj [(''x'', JInt 1)])] = 0"
proof -
  let ?a = "OutputActor_init [''A'', ''B''] [] {}"
  let ?e = "OutputActor_init [] [] {}"
  let ?b = "content_from ''B'' ''done-B''"
  let ?ba = "[content_from ''B'' ''done-B'', content_from ''A'' ''done-A'']"
  let ?k = "[chunk_from ''A'' (JObj [(''x'', JInt 1)])]"
  have h1: "\<not> set (dependencies ?a) \<subseteq> set (content_senders [?b])"
    by code_simp
  have h2: "dependencies ?a \<noteq> [] \<and> set (content_senders ?ba) \<subseteq> set (dependencies ?a)
      \<and> distinct (content_senders ?ba)"
    by code_simp
  have h3: "set (dependencies ?a) \<subseteq> set (content_senders ?ba)"
    by code_simp
  have h4: "dependencies ?e = []"
    by code_simp
  from h1 completion_gating [where a = ?a and ms = "[?b]" and c = plain_collaborators]
  have c1: "terminal_pushes plain_collaborators (reset ?a) [?b] = 0"
    by blast
  from h2 completion_gating [where a = ?a and ms = ?ba and c = plain_collaborators]
  have "terminal_pushes plain_collaborators (reset ?a) ?ba =
      (if set (dependencies ?a) \<subseteq> set (content_senders ?ba) then 1 else 0)"
    by blast
  with h3 have c2: "terminal_pushes plain_collaborators (reset ?a) ?ba = 1"
    by simp
  from h4 completion_gating [where a = ?e and ms = ?k and c = plain_collaborators]
  have c3: "terminal_pushes plain_collaborators (reset ?e) ?k = 0"
    by blast
  from h1 h2 h3 h4 c1 c2 c3 show ?thesis by blast
qed

text \<open>
  C10: once a sender outside the dependencies has delivered content, no terminal success
  fragment is pushed for the rest of the run. From any state of the actor, neither the
  delivery of that content nor any delivery after it pushes one.
\<close>

theorem extra_sender_blocks_completion:
  "delivers_content m \<Longrightarrow> sender m \<notin> set (dependencies a) \<Longrightarrow>
   terminal_pushes c a (m # ms) = 0"
proof (induction ms rule: rev_induct)
  case Nil
  then show ?case by (auto simp: terminal_pushes_def pushed_single)
next
  case (snoc x xs)
  have "terminal_pushes c a ((m # xs) @ [x]) = terminal_pushes c a (m # xs)"
    using snoc.prems unfolding terminal_pushes_snoc
    by (auto simp: content_senders_def)
  with snoc show ?case by simp
qed

theorem extra_sender_blocks_completion_witness:
  "delivers_content (content_from ''C'' ''done-C'')
   \<and> sender (content_from ''C'' ''done-C'')
       \<notin> set (dependencies (OutputActor_init [''A'', ''B''] [] {}))
   \<and> terminal_pushes plain_collaborators (OutputActor_init [''A'', ''B''] [] {})
       (content_from ''C'' ''done-C''
          # [content_from ''A'' ''done-A'', content_from ''B'' ''done-B'']) = 0"
proof -
  let ?a = "OutputActor_init [''A'', ''B''] [] {}"
  have h1: "delivers_content (content_from ''C'' ''done-C'')"
    by code_simp
  have h2: "sender (content_from ''C'' ''done-C'') \<notin> set (dependencies ?a)"
    by code_simp
  from extra_sender_blocks_completion [OF h1 h2] h1 h2 show ?thesis
    by blast
qed

section \<open>Errors and chunks\<close>

lemma receive_chunk_errors_update:
  "receive_chunk c (a\<lparr>errors := e\<rparr>) m = (receive_chunk c a m)\<lparr>errors := e\<rparr>"
  by (simp add: receive_chunk_def Let_def split: sum.splits option.splits)

text \<open>
  C2, as the specification states it: once an \<open>ERRORS\<close> message has been processed,
  a \<open>CONTENT_STREAM_CHUNK\<close> message leaves the stitched document as it was and pushes
  no incremental fragment. It fails: \<open>on_receive\<close> never reads \<open>_errors\<close>. After
  the errors of \<open>B\<close>, the chunk \<open>{"a": 1}\<close> of \<open>A\<close> turns the stitched document
  from \<open>{}\<close> into \<open>{"A": {"a": 1}}\<close> and pushes its incremental fragment.
\<close>

theorem error_precedence_counterexample:
  "has_errors (run plain_collaborators (OutputActor_init [''A''] [(''output'', ''done'')] {})
       [errors_from ''B'' [''boom'']])
   \<and> stitched_data (run plain_collaborators (OutputActor_init [''A''] [(''output'', ''done'')] {})
       [errors_from ''B'' [''boom'']]) = JObj []
   \<and> stitched_data (run plain_collaborators (OutputActor_init [''A''] [(''output'', ''done'')] {})
       [errors_from ''B'' [''boom''], chunk_from ''A'' (JObj [(''a'', JInt 1)])])
       = JObj [(''A'', JObj [(''a'', JInt 1)])]
   \<and> pushed plain_collaborators
       (run plain_collaborators (OutputActor_init [''A''] [(''output'', ''done'')] {})
          [errors_from ''B'' [''boom'']])
       [chunk_from ''A'' (JObj [(''a'', JInt 1)])]
       = [Incremental ''done'' ''A'' (JObj [(''a'', JInt 1)])]"
  by code_simp

text \<open>
  C2, amended. An \<open>ERRORS\<close> message only records its error list. A
  \<open>CONTENT_STREAM_CHUNK\<close> message processed after it is merged, rendered and pushed
  exactly as it would have been without it: the actor after the two messages is the actor
  after the chunk alone, with the error list recorded.
\<close>

theorem chunk_after_errors:
  "msg_type e = ERRORS \<Longrightarrow> data e = Some (ErrorsData es) \<Longrightarrow>
   msg_type m = CONTENT_STREAM_CHUNK \<Longrightarrow>
   run c a [e, m] = (run c a [m])\<lparr>errors := Some es\<rparr>"
  by (simp add: deliver_def on_receive_def on_error_def data_errors_def
      receive_chunk_errors_update)

theorem chunk_after_errors_witness:
  "msg_type (errors_from ''B'' [''boom'']) = ERRORS
   \<and> data (errors_from ''B'' [''boom'']) = Some (ErrorsData [\<lparr>code = - 1, message = ''boom''\<rparr>])
   \<and> msg_type (chunk_from ''A'' (JObj [(''a'', JInt 1)])) = CONTENT_STREAM_CHUNK
   \<and> run plain_collaborators (OutputActor_init [''A''] [(''output'', ''done'')] {})
       [errors_from ''B'' [''boom''], chunk_from ''A'' (JObj [(''a'', JInt 1)])]
     = (run plain_collaborators (OutputActor_init [''A''] [(''output'', ''done'')] {})
          [chunk_from ''A'' (JObj [(''a'', JInt 1)])])
       \<lparr>errors := Some [\<lparr>code = - 1, message = ''boom''\<rparr>]\<rparr>"
proof -
  have h1: "msg_type (errors_from ''B'' [''boom'']) = ERRORS"
    by (simp add: errors_from_def message_of_def)
  have h2: "data (errors_from ''B'' [''boom''])
      = Some (ErrorsData [\<lparr>code = - 1, message = ''boom''\<rparr>])"
    by (simp add: errors_from_def message_of_def)
  have h3: "msg_type (chunk_from ''A'' (JObj [(''a'', JInt 1)])) = CONTENT_STREAM_CHUNK"
    by (simp add: chunk_from_def message_of_def)
  from chunk_after_errors [OF h1 h2 h3] h1 h2 h3 show ?thesis by blast
qed

section \<open>The terminal success fragment\<close>

lemma run_final_content:
  "map_of (messages (run c a ms)) k =
     (case final_content ms k of Some v \<Rightarrow> Some v | None \<Rightarrow> map_of (messages a) k)"
proof (induction ms arbitrary: a)
  case Nil
  show ?case by simp
next
  case (Cons m ms)
  have "map_of (messages (deliver c a m)) k =
      (case data m of
         Some (ContentData v) \<Rightarrow>
           if msg_type m = CONTENT \<and> sender m = k then Some (plain_content v)
           else map_of (messages a) k
       | _ \<Rightarrow> map_of (messages a) k)"
    by (auto simp: deliver_def on_receive_def on_error_def Let_def receive_chunk_messages
        map_of_dict_set data_content_def data_errors_def
        split: sum.splits option.splits MessageData.splits)
  with Cons [of "deliver c a m"] show ?case
    by (auto split: option.splits MessageData.splits)
qed

lemma receive_chunk_shaped:
  "output_shaped (int_output a) \<Longrightarrow> output_shaped (int_output (receive_chunk c a m))"
  by (auto simp: receive_chunk_def Let_def output_shaped_def
      split: sum.splits option.splits list.splits if_splits)

lemma deliver_shaped:
  "output_shaped (int_output a) \<Longrightarrow> output_shaped (int_output (deliver c a m))"
  using receive_chunk_shaped [of a c m]
  by (auto simp: deliver_def on_receive_def on_error_def Let_def
      split: sum.splits)

lemma run_shaped:
  "output_shaped (int_output a) \<Longrightarrow> output_shaped (int_output (run c a ms))"
  by (induction ms arbitrary: a) (auto simp: deliver_shaped)

lemma receive_chunk_rendered:
  "int_output (receive_chunk c b k) = int_output b
   \<or> (\<exists>tmpl t. map_of (templates b) ''output'' = Some tmpl
         \<and> render_template c tmpl (stitched_data (receive_chunk c b k)) = Some t
         \<and> int_output (receive_chunk c b k) = dict_set ''output'' t (int_output b))"
  by (simp add: receive_chunk_def Let_def split: sum.splits option.splits)

lemma deliver_rendered:
  "int_output (deliver c b k) = int_output b
   \<or> (\<exists>tmpl t. map_of (templates b) ''output'' = Some tmpl
         \<and> render_template c tmpl (stitched_data (deliver c b k)) = Some t
         \<and> int_output (deliver c b k) = dict_set ''output'' t (int_output b))"
proof (cases "msg_type k = CONTENT_STREAM_CHUNK")
  case True
  then have "deliver c b k = receive_chunk c b k"
    by (simp add: deliver_def on_receive_def)
  with receive_chunk_rendered [of c b k] show ?thesis by simp
next
  case False
  then have "int_output (deliver c b k) = int_output b"
    by (simp add: deliver_def on_receive_def on_error_def Let_def split: sum.splits)
  then show ?thesis by simp
qed

text \<open>
  C3, as the specification states it: in the terminal success fragment the value at
  \<open>output\<close> is the rendered text. It fails: the value is the dictionary
  \<open>_int_output\<close>, which holds the rendered text under its own key \<open>output\<close>. In
  the scenario of the specification (dependencies \<open>A\<close> and \<open>B\<close>; \<open>A\<close> sends the
  chunk \<open>{"x": 1}\<close> and its content, \<open>B\<close> its content) the value at \<open>output\<close>
  is \<open>{"output": "ready"}\<close>, not the text \<open>"ready"\<close>.
\<close>

theorem terminal_success_shape_counterexample:
  "pushed plain_collaborators (OutputActor_init [''A'', ''B''] [(''output'', ''ready'')] {})
     [chunk_from ''A'' (JObj [(''x'', JInt 1)]), content_from ''A'' ''done-A'',
      content_from ''B'' ''done-B'']
     = [Incremental ''ready'' ''A'' (JObj [(''x'', JInt 1)]), Terminal_success]
   \<and> lookup
       (fragment_value
          (run plain_collaborators (OutputActor_init [''A'', ''B''] [(''output'', ''ready'')] {})
             [chunk_from ''A'' (JObj [(''x'', JInt 1)]), content_from ''A'' ''done-A'',
              content_from ''B'' ''done-B''])
          Terminal_success)
       ''output''
     = Some (JObj [(''output'', JStr ''ready'')])
   \<and> \<not> is_text (JObj [(''output'', JStr ''ready'')])"
  by code_simp

text \<open>
  C3, amended. When a message of a run from the reset actor pushes the terminal success
  fragment, the fragment is \<open>{"output": o, "chunks": c}\<close>, where \<open>o\<close> is the
  dictionary \<open>_int_output\<close> (empty while no chunk has been rendered, else the last
  rendered text under the key \<open>output\<close>) and \<open>c\<close> is \<open>_messages\<close>: its keys
  are exactly the dependencies and it maps every sender to the content that sender
  delivered last. A delivery leaves \<open>_int_output\<close> as it was, or sets its entry
  \<open>output\<close> to the rendering of the stitched document.
\<close>

theorem terminal_success_shape:
  "(Terminal_success \<in> set (pushed c (run c (reset a) ms) [m]) \<longrightarrow>
     fragment_value (run c (reset a) (ms @ [m])) Terminal_success =
       JObj [(''output'',
              JObj (case map_of (int_output (run c (reset a) (ms @ [m]))) ''output'' of
                      None \<Rightarrow> []
                    | Some t \<Rightarrow> [(''output'', JStr t)])),
             (''chunks'', JObj (messages (run c (reset a) (ms @ [m]))))]
     \<and> keys (messages (run c (reset a) (ms @ [m]))) = set (dependencies a)
     \<and> (\<forall>k. map_of (messages (run c (reset a) (ms @ [m]))) k = final_content (ms @ [m]) k))
   \<and> (int_output (deliver c b x) = int_output b
      \<or> (\<exists>tmpl t. map_of (templates b) ''output'' = Some tmpl
            \<and> render_template c tmpl (stitched_data (deliver c b x)) = Some t
            \<and> int_output (deliver c b x) = dict_set ''output'' t (int_output b)))"
proof (intro conjI impI)
  show "int_output (deliver c b x) = int_output b
      \<or> (\<exists>tmpl t. map_of (templates b) ''output'' = Some tmpl
            \<and> render_template c tmpl (stitched_data (deliver c b x)) = Some t
            \<and> int_output (deliver c b x) = dict_set ''output'' t (int_output b))"
    by (rule deliver_rendered)
next
  assume push: "Terminal_success \<in> set (pushed c (run c (reset a) ms) [m])"
  let ?s = "run c (reset a) (ms @ [m])"
  have "output_shaped (int_output ?s)"
    by (rule run_shaped) (simp add: reset_def output_shaped_def)
  then have 1: "map (\<lambda>(k, v). (k, JStr v)) (int_output ?s) =
      (case map_of (int_output ?s) ''output'' of None \<Rightarrow> [] | Some t \<Rightarrow> [(''output'', JStr t)])"
    unfolding output_shaped_def by (auto split: option.splits)
  from push have "count_list (pushed c (run c (reset a) ms) [m]) Terminal_success \<noteq> 0"
    by (simp add: count_list_0_iff)
  then have "delivers_content m \<and>
      set (dependencies (run c (reset a) ms)) =
        insert (sender m) (keys (messages (run c (reset a) ms)))"
    unfolding pushed_single by (auto split: if_splits)
  then have 2: "keys (messages ?s) = set (dependencies a)"
    by (simp add: run_append deliver_keys run_dependencies reset_fields)
  have 3: "\<forall>k. map_of (messages ?s) k = final_content (ms @ [m]) k"
    by (simp add: run_final_content reset_fields split: option.splits)
  from 1 show "fragment_value ?s Terminal_success =
       JObj [(''output'',
              JObj (case map_of (int_output ?s) ''output'' of
                      None \<Rightarrow> []
                    | Some t \<Rightarrow> [(''output'', JStr t)])),
             (''chunks'', JObj (messages ?s))]"
    by simp
  from 2 show "keys (messages ?s) = set (dependencies a)" .
  from 3 show "\<forall>k. map_of (messages ?s) k = final_content (ms @ [m]) k" .
qed

theorem terminal_success_shape_witness:
  "Terminal_success
     \<in> set (pushed plain_collaborators
              (run plain_collaborators
                 (reset (OutputActor_init [''A'', ''B''] [(''output'', ''ready'')] {}))
                 [chunk_from ''A'' (JObj [(''x'', JInt 1)]), content_from ''A'' ''done-A''])
              [content_from ''B'' ''done-B''])
   \<and> fragment_value
       (run plain_collaborators
          (reset (OutputActor_init [''A'', ''B''] [(''output'', ''ready'')] {}))
          ([chunk_from ''A'' (JObj [(''x'', JInt 1)]), content_from ''A'' ''done-A'']
             @ [content_from ''B'' ''done-B'']))
       Terminal_success
     = JObj [(''output'', JObj [(''output'', JStr ''ready'')]),
             (''chunks'', JObj [(''A'', JStr ''done-A''), (''B'', JStr ''done-B'')])]"
proof -
  let ?a = "OutputActor_init [''A'', ''B''] [(''output'', ''ready'')] {}"
  let ?ms = "[chunk_from ''A'' (JObj [(''x'', JInt 1)]), content_from ''A'' ''done-A'']"
  let ?m = "content_from ''B'' ''done-B''"
  have h: "Terminal_success
      \<in> set (pushed plain_collaborators (run plain_collaborators (reset ?a) ?ms) [?m])"
    by code_simp
  have v1: "map_of (int_output (run plain_collaborators (reset ?a) (?ms @ [?m]))) ''output''
      = Some ''ready''"
    by code_simp
  have v2: "messages (run plain_collaborators (reset ?a) (?ms @ [?m]))
      = [(''A'', JStr ''done-A''), (''B'', JStr ''done-B'')]"
    by code_simp
  from terminal_success_shape [where c = plain_collaborators and a = ?a and ms = ?ms and m = ?m] h
  have "fragment_value (run plain_collaborators (reset ?a) (?ms @ [?m])) Terminal_success =
       JObj [(''output'',
              JObj (case map_of (int_output (run plain_collaborators (reset ?a) (?ms @ [?m])))
                           ''output'' of
                      None \<Rightarrow> []
                    | Some t \<Rightarrow> [(''output'', JStr t)])),
             (''chunks'', JObj (messages (run plain_collaborators (reset ?a) (?ms @ [?m]))))]"
    by blast
  with h show ?thesis unfolding v1 v2 by simp
qed

section \<open>Spread and namespaced merge\<close>

lemma stitch_fields_map_of:
  "distinct (map fst b) \<Longrightarrow>
   map_of (stitch_fields a b) k =
     (case map_of b k of
        None \<Rightarrow> map_of a k
      | Some v \<Rightarrow> Some (case map_of a k of None \<Rightarrow> v | Some old \<Rightarrow> stitch_model_objects old v))"
proof (induction b arbitrary: a)
  case Nil
  show ?case by simp
next
  case (Cons p rest)
  obtain k' v' where p: "p = (k', v')" by (cases p)
  from Cons.prems p have "map_of rest k' = None"
    by (simp add: map_of_eq_None_iff)
  with Cons p show ?case
    by (auto simp: map_of_dict_set split: option.splits)
qed

lemma stitch_scalar: "\<not> is_dict v \<Longrightarrow> stitch_model_objects old v = v"
  by (cases old; cases v) auto

lemma stitch_leaf:
  assumes "distinct (map fst fs)" and "map_of fs k = Some v" and "\<not> is_dict v"
  shows "lookup (stitch_model_objects old (JObj fs)) k = Some v"
proof (cases old)
  case (JObj d)
  with assms show ?thesis
    by (simp add: stitch_fields_map_of stitch_scalar split: option.splits)
qed (use assms in auto)

lemma receive_chunk_stitched:
  "data_chunk m = Inr ch \<Longrightarrow>
   stitch c (stitched_data a)
     (if sender m \<notin> spread_output_for_keys a then JObj [(sender m, ch)] else ch) = Some st \<Longrightarrow>
   stitched_data (receive_chunk c a m) = st"
  by (simp add: receive_chunk_def Let_def split: option.splits)

text \<open>
  C9: with the merge engine of the specification, a chunk that is a dictionary is merged
  into the top level of the stitched document when its sender is in the spread set, and
  under the key of its sender otherwise. A key \<open>k\<close> of the chunk whose value \<open>v\<close> is
  not itself a dictionary is then found at \<open>stitched[k]\<close> in the first case and at
  \<open>stitched[sender][k]\<close> in the second.
\<close>

theorem spread_vs_namespaced:
  assumes "stitch c = (\<lambda>acc x. Some (stitch_model_objects acc x))"
    and "msg_type m = CONTENT_STREAM_CHUNK"
    and "data m = Some (ContentStreamChunkData (JObj fs))"
    and "distinct (map fst fs)"
    and "map_of fs k = Some v"
    and "\<not> is_dict v"
  shows "stitched_data (deliver c a m) =
           stitch_model_objects (stitched_data a)
             (if sender m \<in> spread_output_for_keys a then JObj fs
              else JObj [(sender m, JObj fs)])
         \<and> (sender m \<in> spread_output_for_keys a \<longrightarrow>
              lookup (stitched_data (deliver c a m)) k = Some v)
         \<and> (sender m \<notin> spread_output_for_keys a \<longrightarrow>
              Option.bind (lookup (stitched_data (deliver c a m)) (sender m))
                (\<lambda>sub. lookup sub k) = Some v)"
proof -
  let ?arg = "if sender m \<notin> spread_output_for_keys a then JObj [(sender m, JObj fs)] else JObj fs"
  from assms(3) have ch: "data_chunk m = Inr (JObj fs)"
    by (simp add: data_chunk_def)
  from assms(2) have "deliver c a m = receive_chunk c a m"
    by (simp add: deliver_def on_receive_def)
  moreover from assms(1) have "stitch c (stitched_data a) ?arg
      = Some (stitch_model_objects (stitched_data a) ?arg)"
    by simp
  ultimately have st: "stitched_data (deliver c a m) = stitch_model_objects (stitched_data a) ?arg"
    using receive_chunk_stitched [OF ch] by simp
  have leaf: "\<And>old. lookup (stitch_model_objects old (JObj fs)) k = Some v"
    using assms(4-6) by (rule stitch_leaf)
  have spread: "sender m \<in> spread_output_for_keys a \<Longrightarrow>
      lookup (stitched_data (deliver c a m)) k = Some v"
    using st leaf by simp
  have named: "Option.bind (lookup (stitch_model_objects old (JObj [(s, JObj fs)])) s)
      (\<lambda>sub. lookup sub k) = Some v" for old s
  proof (cases old)
    case (JObj d)
    show ?thesis
      using leaf assms(5) by (simp add: JObj map_of_dict_set split: option.splits)
  qed (use assms(5) in auto)
  from st spread named show ?thesis by auto
qed

text \<open>The chunk \<open>{"a": 1}\<close> of the specification, from a spread and from another sender.\<close>

theorem spread_vs_namespaced_witness:
  "stitched_data
     (deliver plain_collaborators (OutputActor_init [''A''] [] {''A''})
        (chunk_from ''A'' (JObj [(''a'', JInt 1)])))
     = JObj [(''a'', JInt 1)]
   \<and> lookup
       (stitched_data
          (deliver plain_collaborators (OutputActor_init [''A''] [] {''A''})
             (chunk_from ''A'' (JObj [(''a'', JInt 1)]))))
       ''a''
     = Some (JInt 1)
   \<and> stitched_data
       (deliver plain_collaborators (OutputActor_init [''A''] [] {})
          (chunk_from ''A'' (JObj [(''a'', JInt 1)])))
     = JObj [(''A'', JObj [(''a'', JInt 1)])]
   \<and> Option.bind
       (lookup
          (stitched_data
             (deliver plain_collaborators (OutputActor_init [''A''] [] {})
                (chunk_from ''A'' (JObj [(''a'', JInt 1)]))))
          ''A'')
       (\<lambda>sub. lookup sub ''a'')
     = Some (JInt 1)"
proof -
  let ?m = "chunk_from ''A'' (JObj [(''a'', JInt 1)])"
  let ?s = "OutputActor_init [''A''] [] {''A''}"
  let ?n = "OutputActor_init [''A''] [] {}"
  have h1: "stitch plain_collaborators = (\<lambda>acc x. Some (stitch_model_objects acc x))"
    by (simp add: plain_collaborators_def)
  have h2: "msg_type ?m = CONTENT_STREAM_CHUNK"
    by (simp add: chunk_from_def message_of_def)
  have h3: "data ?m = Some (ContentStreamChunkData (JObj [(''a'', JInt 1)]))"
    by (simp add: chunk_from_def message_of_def)
  have h4: "distinct (map fst [(''a'', JInt 1)])" by simp
  have h5: "map_of [(''a'', JInt 1)] ''a'' = Some (JInt 1)" by simp
  have h6: "\<not> is_dict (JInt 1)" by simp
  have s1: "sender ?m \<in> spread_output_for_keys ?s"
    by (simp add: chunk_from_def message_of_def OutputActor_init_def reset_def)
  have s2: "sender ?m \<notin> spread_output_for_keys ?n"
    by (simp add: chunk_from_def message_of_def OutputActor_init_def reset_def)
  have s3: "sender ?m = ''A''"
    by (simp add: chunk_from_def message_of_def)
  have e1: "stitched_data ?s = JObj []" "stitched_data ?n = JObj []"
    by (simp_all add: OutputActor_init_def reset_def)
  note t1 = spread_vs_namespaced [OF h1 h2 h3 h4 h5 h6, of ?s]
  note t2 = spread_vs_namespaced [OF h1 h2 h3 h4 h5 h6, of ?n]
  from t1 s1 e1 have a1: "stitched_data (deliver plain_collaborators ?s ?m) = JObj [(''a'', JInt 1)]"
    by simp
  from t1 s1 have a2: "lookup (stitched_data (deliver plain_collaborators ?s ?m)) ''a''
      = Some (JInt 1)"
    by blast
  from t2 s2 s3 e1 have b1: "stitched_data (deliver plain_collaborators ?n ?m)
      = JObj [(''A'', JObj [(''a'', JInt 1)])]"
    by simp
  from t2 s2 have "Option.bind
      (lookup (stitched_data (deliver plain_collaborators ?n ?m)) (sender ?m))
      (\<lambda>sub. lookup sub ''a'') = Some (JInt 1)"
    by blast
  then have b2: "Option.bind (lookup (stitched_data (deliver plain_collaborators ?n ?m)) ''A'')
      (\<lambda>sub. lookup sub ''a'') = Some (JInt 1)"
    unfolding s3 .
  from a1 a2 b1 b2 show ?thesis by blast
qed

section \<open>Construction of messages\<close>

text \<open>
  C5: two messages constructed without an explicit \<open>id\<close> have different identifiers.
  The code gives both the one identifier that was drawn when the class was defined.
\<close>

theorem default_id_shared:
  "Message_init u \<lparr>kw_id = None, kw_type = Some ''BEGIN'', kw_sender = Some ''A'',
                   kw_receiver = None, kw_reply_to = None, kw_data = None\<rparr>
     = Inr \<lparr>msg_id = u, msg_type = BEGIN, sender = ''A'', receiver = None, reply_to = None,
            data = None\<rparr>
   \<and> Message_init u \<lparr>kw_id = None, kw_type = Some ''CONTENT'', kw_sender = Some ''B'',
                     kw_receiver = None, kw_reply_to = None,
                     kw_data = Some (ContentData (Plain (JStr ''done-B'')))\<rparr>
     = Inr \<lparr>msg_id = u, msg_type = CONTENT, sender = ''B'', receiver = None, reply_to = None,
            data = Some (ContentData (Plain (JStr ''done-B'')))\<rparr>"
  by (simp add: Message_init_def MessageType_of_def)




section \<open>Exceptions of \<open>on_receive\<close>\<close>

text \<open>
  C7, as the specification states it: \<open>on_receive\<close> raises for no message. It does,
  for a \<open>CONTENT\<close> message without payload and for an \<open>ERRORS\<close> message whose
  payload is a plain dictionary without the key \<open>errors\<close>: the attribute is read
  outside the \<open>try\<close> block.
\<close>

theorem on_receive_totality_counterexample:
  "on_receive plain_collaborators (OutputActor_init [''A''] [] {}) (message_of CONTENT ''A'' None)
     = Inl AttributeError
   \<and> on_receive plain_collaborators (OutputActor_init [''A''] [] {})
       (message_of ERRORS ''A'' (Some (Dict [(''detail'', JStr ''boom'')])))
     = Inl AttributeError"
  by (simp add: message_of_def on_receive_def data_content_def data_errors_def)

text \<open>
  C7, amended. \<open>on_receive\<close> returns for every message that is neither \<open>ERRORS\<close>
  nor \<open>CONTENT\<close>, whatever its payload (a failure while a chunk is processed is caught
  and logged), for every \<open>ERRORS\<close> message with an errors payload and for every
  \<open>CONTENT\<close> message with a content payload. Only an \<open>ERRORS\<close> message changes
  the recorded error list.
\<close>

theorem on_receive_returns:
  "(msg_type m \<noteq> ERRORS \<and> msg_type m \<noteq> CONTENT \<longrightarrow>
      (\<exists>a'. on_receive c a m = Inr a' \<and> errors a' = errors a))
   \<and> (msg_type m = ERRORS \<and> data m = Some (ErrorsData es) \<longrightarrow>
      on_receive c a m = Inr (a\<lparr>errors := Some es\<rparr>))
   \<and> (delivers_content m \<longrightarrow> (\<exists>a'. on_receive c a m = Inr a' \<and> errors a' = errors a))"
  by (auto simp: on_receive_def Let_def receive_chunk_errors data_errors_def on_error_def
      delivers_content_def data_content_def split: option.splits MessageData.splits)

theorem on_receive_returns_witness:
  "(msg_type (chunk_from ''A'' (JObj [(''a'', JInt 1)])) \<noteq> ERRORS
    \<and> msg_type (chunk_from ''A'' (JObj [(''a'', JInt 1)])) \<noteq> CONTENT
    \<and> (\<exists>a'. on_receive plain_collaborators (OutputActor_init [''A''] [] {})
               (chunk_from ''A'' (JObj [(''a'', JInt 1)])) = Inr a'))
   \<and> (msg_type (message_of CONTENT_STREAM_CHUNK ''A'' None) \<noteq> ERRORS
    \<and> msg_type (message_of CONTENT_STREAM_CHUNK ''A'' None) \<noteq> CONTENT
    \<and> (\<exists>a'. on_receive plain_collaborators (OutputActor_init [''A''] [] {})
               (message_of CONTENT_STREAM_CHUNK ''A'' None) = Inr a'))
   \<and> (msg_type (errors_from ''A'' [''boom'']) = ERRORS
    \<and> data (errors_from ''A'' [''boom'']) = Some (ErrorsData [\<lparr>code = - 1, message = ''boom''\<rparr>])
    \<and> on_receive plain_collaborators (OutputActor_init [''A''] [] {})
         (errors_from ''A'' [''boom''])
       = Inr ((OutputActor_init [''A''] [] {})
                \<lparr>errors := Some [\<lparr>code = - 1, message = ''boom''\<rparr>]\<rparr>))
   \<and> (delivers_content (content_from ''A'' ''done-A'')
    \<and> (\<exists>a'. on_receive plain_collaborators (OutputActor_init [''A''] [] {})
               (content_from ''A'' ''done-A'') = Inr a'))"
proof -
  let ?c = plain_collaborators
  let ?a = "OutputActor_init [''A''] [] {}"
  let ?k = "chunk_from ''A'' (JObj [(''a'', JInt 1)])"
  let ?z = "message_of CONTENT_STREAM_CHUNK ''A'' None"
  let ?e = "errors_from ''A'' [''boom'']"
  let ?es = "[\<lparr>code = - 1, message = ''boom''\<rparr>]"
  let ?m = "content_from ''A'' ''done-A''"
  have h1: "msg_type ?k \<noteq> ERRORS" "msg_type ?k \<noteq> CONTENT"
    by (simp_all add: chunk_from_def message_of_def)
  have h2: "msg_type ?z \<noteq> ERRORS" "msg_type ?z \<noteq> CONTENT"
    by (simp_all add: message_of_def)
  have h3: "msg_type ?e = ERRORS" "data ?e = Some (ErrorsData ?es)"
    by (simp_all add: errors_from_def message_of_def)
  have h4: "delivers_content ?m"
    by (simp add: delivers_content_def content_from_def message_of_def)
  from on_receive_returns [of ?k ?c ?a ?es] h1
  have c1: "\<exists>a'. on_receive ?c ?a ?k = Inr a'" by blast
  from on_receive_returns [of ?z ?c ?a ?es] h2
  have c2: "\<exists>a'. on_receive ?c ?a ?z = Inr a'" by blast
  from on_receive_returns [of ?e ?c ?a ?es] h3
  have c3: "on_receive ?c ?a ?e = Inr (?a\<lparr>errors := Some ?es\<rparr>)" by blast
  from on_receive_returns [of ?m ?c ?a ?es] h4
  have c4: "\<exists>a'. on_receive ?c ?a ?m = Inr a'" by blast
  from h1 h2 h3 h4 c1 c2 c3 c4 show ?thesis
    by blast
qed

section \<open>The stream\<close>

lemma fragment_value_queue [simp]:
  "fragment_value (a\<lparr>content_queue := qs\<rparr>) f = fragment_value a f"
  by (cases f) auto

lemma fragment_value_not_errors [simp]: "\<not> is_errors_fragment (fragment_value a f)"
  by (cases f) auto

lemma finally_fragments_flagged:
  "has_errors a \<or> stopped a \<Longrightarrow>
   \<exists>j. finally_fragments a = [j] \<and> is_errors_fragment j"
  by (auto simp: finally_fragments_def has_errors_def errors_fragment_def interrupted_fragment_def
      split: option.splits list.splits)

lemma exec_append: "exec c s (evs @ evs') = exec c (exec c s evs) evs'"
  by (induction evs arbitrary: s) auto

lemma turn_ended: "ended s \<Longrightarrow> get_output_turn s = s"
  by (simp add: get_output_turn_def)

lemma turn_idle:
  "\<not> ended s \<Longrightarrow> content_queue (actor s) = [] \<Longrightarrow> \<not> has_errors (actor s) \<Longrightarrow>
   \<not> stopped (actor s) \<Longrightarrow> get_output_turn s = s"
  by (simp add: get_output_turn_def)

lemma turns_idle:
  "\<not> ended s \<Longrightarrow> content_queue (actor s) = [] \<Longrightarrow> \<not> has_errors (actor s) \<Longrightarrow>
   \<not> stopped (actor s) \<Longrightarrow> exec c s (replicate n Turn) = s"
  by (induction n) (auto simp: turn_idle)

lemma turns_drain:
  "\<not> ended s \<Longrightarrow> n \<le> length (content_queue (actor s)) \<Longrightarrow>
   exec c s (replicate n Turn) =
     s\<lparr>actor := (actor s)\<lparr>content_queue := drop n (content_queue (actor s))\<rparr>,
       yielded := yielded s @ map (fragment_value (actor s)) (take n (content_queue (actor s)))\<rparr>"
proof (induction n arbitrary: s)
  case 0
  show ?case by simp
next
  case (Suc n)
  then obtain q qs where q: "content_queue (actor s) = q # qs"
    by (cases "content_queue (actor s)") auto
  let ?s = "s\<lparr>actor := (actor s)\<lparr>content_queue := qs\<rparr>,
               yielded := yielded s @ [fragment_value (actor s) q]\<rparr>"
  from Suc.prems q have t: "get_output_turn s = ?s"
    by (simp add: get_output_turn_def)
  from Suc.prems q have "\<not> ended ?s" "n \<le> length (content_queue (actor ?s))"
    by simp_all
  from Suc.IH [OF this] t q show ?case by simp
qed

lemma turns_finish:
  assumes "\<not> ended s" and "has_errors (actor s) \<or> stopped (actor s)"
  shows "exec c s (replicate (Suc (length (content_queue (actor s)))) Turn) =
     \<lparr>actor = (actor s)\<lparr>content_queue := []\<rparr>, ended = True,
      yielded = yielded s @ map (fragment_value (actor s)) (content_queue (actor s))
                  @ finally_fragments (actor s)\<rparr>"
proof -
  let ?n = "length (content_queue (actor s))"
  have "replicate (Suc ?n) Turn = replicate ?n Turn @ [Turn]"
    by (simp add: replicate_append_same)
  then have "exec c s (replicate (Suc ?n) Turn) =
      get_output_turn (exec c s (replicate ?n Turn))"
    by (simp add: exec_append)
  also have "exec c s (replicate ?n Turn) =
      s\<lparr>actor := (actor s)\<lparr>content_queue := []\<rparr>,
        yielded := yielded s @ map (fragment_value (actor s)) (content_queue (actor s))\<rparr>"
    using turns_drain [OF assms(1), of ?n c] by simp
  also have "get_output_turn \<dots> =
     \<lparr>actor = (actor s)\<lparr>content_queue := []\<rparr>, ended = True,
      yielded = yielded s @ map (fragment_value (actor s)) (content_queue (actor s))
                  @ finally_fragments (actor s)\<rparr>"
    using assms by (auto simp: get_output_turn_def has_errors_def finally_fragments_def)
  finally show ?thesis .
qed

lemma turns_open:
  assumes "\<not> ended s" and "\<not> has_errors (actor s)" and "\<not> stopped (actor s)"
  shows "exec c s (replicate n Turn) =
     s\<lparr>actor := (actor s)\<lparr>content_queue := drop n (content_queue (actor s))\<rparr>,
       yielded := yielded s @ map (fragment_value (actor s)) (take n (content_queue (actor s)))\<rparr>"
proof (cases "n \<le> length (content_queue (actor s))")
  case True
  with assms(1) show ?thesis by (rule turns_drain)
next
  case False
  let ?l = "length (content_queue (actor s))"
  let ?s = "s\<lparr>actor := (actor s)\<lparr>content_queue := []\<rparr>,
       yielded := yielded s @ map (fragment_value (actor s)) (content_queue (actor s))\<rparr>"
  from False have "replicate n Turn = replicate ?l Turn @ replicate (n - ?l) Turn"
    by (simp add: replicate_add [symmetric])
  then have "exec c s (replicate n Turn) =
      exec c (exec c s (replicate ?l Turn)) (replicate (n - ?l) Turn)"
    by (simp add: exec_append)
  also have "exec c s (replicate ?l Turn) = ?s"
    using turns_drain [OF assms(1), of ?l c] by simp
  also have "exec c ?s (replicate (n - ?l) Turn) = ?s"
    using assms by (intro turns_idle) (simp_all add: has_errors_def)
  finally show ?thesis using False by simp
qed

lemma step_once:
  "errors_yielded s = (if ended s then 1 else 0) \<Longrightarrow>
   errors_yielded (step c s ev) = (if ended (step c s ev) then 1 else 0)"
proof (cases ev)
  case Turn
  assume inv: "errors_yielded s = (if ended s then 1 else 0)"
  show ?thesis
  proof (cases "\<not> ended s \<and> content_queue (actor s) = []
      \<and> (has_errors (actor s) \<or> stopped (actor s))")
    case True
    with finally_fragments_flagged [of "actor s"] obtain j where
      "finally_fragments (actor s) = [j]" "is_errors_fragment j" by blast
    with True inv Turn show ?thesis
      by (simp add: get_output_turn_def errors_yielded_def)
  next
    case False
    with inv Turn show ?thesis
      by (auto simp: get_output_turn_def errors_yielded_def split: list.splits)
  qed
qed (simp_all add: errors_yielded_def)

lemma exec_once:
  "errors_yielded s = (if ended s then 1 else 0) \<Longrightarrow>
   errors_yielded (exec c s evs) = (if ended (exec c s evs) then 1 else 0)"
  by (induction evs arbitrary: s) (simp_all add: step_once)

text \<open>
  C4, as the specification states it: when an \<open>ERRORS\<close> message was received, the
  stream ends with the fragment of the reported messages. It fails for an \<open>ERRORS\<close>
  message that reports no error: the empty list counts as no error. With a stop, the
  stream then ends with \<open>{"errors": ["Output interrupted"]}\<close> and not with
  \<open>{"errors": []}\<close>; without a stop, it does not end.
\<close>

theorem stop_vs_error_fragment_counterexample:
  "errors (actor (exec plain_collaborators (start (OutputActor_init [''A''] [] {}))
      [Receive (errors_from ''A'' []), Stop, Turn])) = Some []
   \<and> ended (exec plain_collaborators (start (OutputActor_init [''A''] [] {}))
      [Receive (errors_from ''A'' []), Stop, Turn])
   \<and> yielded (exec plain_collaborators (start (OutputActor_init [''A''] [] {}))
      [Receive (errors_from ''A'' []), Stop, Turn])
     = [JObj [(''errors'', JList [JStr ''Output interrupted''])]]
   \<and> errors_fragment [] = JObj [(''errors'', JList [])]
   \<and> \<not> ended (exec plain_collaborators (start (OutputActor_init [''A''] [] {}))
      [Receive (errors_from ''A'' []), Turn, Turn, Turn])
   \<and> yielded (exec plain_collaborators (start (OutputActor_init [''A''] [] {}))
      [Receive (errors_from ''A'' []), Turn, Turn, Turn]) = []"
  by code_simp

text \<open>
  C4, amended. While the queue is not empty, a turn of the consumer does not end the
  stream and yields no terminal failure fragment. With the queue empty, a turn ends the
  stream with \<open>{"errors": [messages]}\<close> when a non-empty error list is recorded, and
  with \<open>{"errors": ["Output interrupted"]}\<close> when none is and the run is stopped.
  Once a non-empty error list is recorded or the run is stopped, the consumer left to
  itself yields what the queue holds, then that one fragment, and the stream has ended.
  A stream that has ended yields nothing more, and in every schedule the consumer is
  given one terminal failure fragment if the stream has ended and none if it has not.
\<close>

theorem stop_vs_error_fragment:
  "(\<not> ended s \<and> content_queue (actor s) \<noteq> [] \<longrightarrow>
      \<not> ended (get_output_turn s) \<and> errors_yielded (get_output_turn s) = errors_yielded s)
   \<and> (\<not> ended s \<and> content_queue (actor s) = [] \<and> errors (actor s) = Some (e # es) \<longrightarrow>
      get_output_turn s = s\<lparr>ended := True, yielded := yielded s @ [errors_fragment (e # es)]\<rparr>)
   \<and> (\<not> ended s \<and> content_queue (actor s) = [] \<and> \<not> has_errors (actor s) \<and> stopped (actor s) \<longrightarrow>
      get_output_turn s = s\<lparr>ended := True, yielded := yielded s @ [interrupted_fragment]\<rparr>)
   \<and> (\<not> ended s \<and> (has_errors (actor s) \<or> stopped (actor s)) \<longrightarrow>
      exec c s (replicate (Suc (length (content_queue (actor s)))) Turn) =
        \<lparr>actor = (actor s)\<lparr>content_queue := []\<rparr>, ended = True,
         yielded = yielded s @ map (fragment_value (actor s)) (content_queue (actor s))
                     @ finally_fragments (actor s)\<rparr>)
   \<and> (ended s \<longrightarrow> get_output_turn s = s)
   \<and> errors_yielded (exec c (start a) evs) = (if ended (exec c (start a) evs) then 1 else 0)"
proof (intro conjI impI)
  assume "\<not> ended s \<and> content_queue (actor s) \<noteq> []"
  then show "\<not> ended (get_output_turn s)"
    by (auto simp: get_output_turn_def split: list.splits)
next
  assume "\<not> ended s \<and> content_queue (actor s) \<noteq> []"
  then show "errors_yielded (get_output_turn s) = errors_yielded s"
    by (auto simp: get_output_turn_def errors_yielded_def split: list.splits)
next
  assume "\<not> ended s \<and> content_queue (actor s) = [] \<and> errors (actor s) = Some (e # es)"
  then show "get_output_turn s =
      s\<lparr>ended := True, yielded := yielded s @ [errors_fragment (e # es)]\<rparr>"
    by (simp add: get_output_turn_def has_errors_def finally_fragments_def)
next
  assume "\<not> ended s \<and> content_queue (actor s) = [] \<and> \<not> has_errors (actor s)
      \<and> stopped (actor s)"
  then show "get_output_turn s =
      s\<lparr>ended := True, yielded := yielded s @ [interrupted_fragment]\<rparr>"
    by (auto simp: get_output_turn_def has_errors_def finally_fragments_def
        split: option.splits list.splits)
next
  assume "\<not> ended s \<and> (has_errors (actor s) \<or> stopped (actor s))"
  then show "exec c s (replicate (Suc (length (content_queue (actor s)))) Turn) =
        \<lparr>actor = (actor s)\<lparr>content_queue := []\<rparr>, ended = True,
         yielded = yielded s @ map (fragment_value (actor s)) (content_queue (actor s))
                     @ finally_fragments (actor s)\<rparr>"
    by (intro turns_finish) simp_all
next
  assume "ended s"
  then show "get_output_turn s = s" by (rule turn_ended)
next
  show "errors_yielded (exec c (start a) evs) = (if ended (exec c (start a) evs) then 1 else 0)"
    by (rule exec_once) (simp add: start_def errors_yielded_def)
qed

theorem stop_vs_error_fragment_witness:
  "(\<not> ended (exec plain_collaborators (start (OutputActor_init [''A''] [(''output'', ''done'')] {}))
        [Receive (chunk_from ''A'' (JObj [(''x'', JInt 1)])),
         Receive (errors_from ''B'' [''boom''])])
    \<and> content_queue (actor (exec plain_collaborators
          (start (OutputActor_init [''A''] [(''output'', ''done'')] {}))
          [Receive (chunk_from ''A'' (JObj [(''x'', JInt 1)])),
           Receive (errors_from ''B'' [''boom''])])) \<noteq> []
    \<and> has_errors (actor (exec plain_collaborators
          (start (OutputActor_init [''A''] [(''output'', ''done'')] {}))
          [Receive (chunk_from ''A'' (JObj [(''x'', JInt 1)])),
           Receive (errors_from ''B'' [''boom''])]))
    \<and> \<not> ended (get_output_turn (exec plain_collaborators
          (start (OutputActor_init [''A''] [(''output'', ''done'')] {}))
          [Receive (chunk_from ''A'' (JObj [(''x'', JInt 1)])),
           Receive (errors_from ''B'' [''boom''])]))
    \<and> yielded (exec plain_collaborators
          (exec plain_collaborators (start (OutputActor_init [''A''] [(''output'', ''done'')] {}))
             [Receive (chunk_from ''A'' (JObj [(''x'', JInt 1)])),
              Receive (errors_from ''B'' [''boom''])])
          (replicate (Suc 1) Turn))
        = [JObj [(''deltas'', JObj [(''output'', JStr ''done'')]),
                 (''chunk'', JObj [(''A'', JObj [(''x'', JInt 1)])])],
           JObj [(''errors'', JList [JStr ''boom''])]])
   \<and> (errors (actor (exec plain_collaborators (start (OutputActor_init [''A''] [] {}))
          [Receive (errors_from ''B'' [''boom''])]))
        = Some (\<lparr>code = - 1, message = ''boom''\<rparr> # [])
      \<and> yielded (get_output_turn (exec plain_collaborators
          (start (OutputActor_init [''A''] [] {})) [Receive (errors_from ''B'' [''boom''])]))
        = [JObj [(''errors'', JList [JStr ''boom''])]])
   \<and> (stopped (actor (exec plain_collaborators (start (OutputActor_init [''A''] [] {})) [Stop]))
      \<and> \<not> has_errors (actor (exec plain_collaborators (start (OutputActor_init [''A''] [] {}))
            [Stop]))
      \<and> yielded (get_output_turn (exec plain_collaborators
            (start (OutputActor_init [''A''] [] {})) [Stop]))
        = [JObj [(''errors'', JList [JStr ''Output interrupted''])]])
   \<and> (ended (exec plain_collaborators (start (OutputActor_init [''A''] [] {})) [Stop, Turn])
      \<and> get_output_turn (exec plain_collaborators (start (OutputActor_init [''A''] [] {}))
            [Stop, Turn])
        = exec plain_collaborators (start (OutputActor_init [''A''] [] {})) [Stop, Turn])"
proof -
  let ?c = plain_collaborators
  let ?e = "\<lparr>code = - 1, message = ''boom''\<rparr>"
  let ?s1 = "exec ?c (start (OutputActor_init [''A''] [(''output'', ''done'')] {}))
        [Receive (chunk_from ''A'' (JObj [(''x'', JInt 1)])),
         Receive (errors_from ''B'' [''boom''])]"
  let ?s2 = "exec ?c (start (OutputActor_init [''A''] [] {}))
        [Receive (errors_from ''B'' [''boom''])]"
  let ?s3 = "exec ?c (start (OutputActor_init [''A''] [] {})) [Stop]"
  let ?s4 = "exec ?c (start (OutputActor_init [''A''] [] {})) [Stop, Turn]"
  have h1: "\<not> ended ?s1 \<and> content_queue (actor ?s1) \<noteq> []"
    by code_simp
  have h1': "has_errors (actor ?s1)"
    by code_simp
  have l1: "length (content_queue (actor ?s1)) = 1"
    by code_simp
  have v1: "yielded ?s1 @ map (fragment_value (actor ?s1)) (content_queue (actor ?s1))
        @ finally_fragments (actor ?s1)
      = [JObj [(''deltas'', JObj [(''output'', JStr ''done'')]),
               (''chunk'', JObj [(''A'', JObj [(''x'', JInt 1)])])],
         JObj [(''errors'', JList [JStr ''boom''])]]"
    by code_simp
  have h2: "\<not> ended ?s2 \<and> content_queue (actor ?s2) = [] \<and> errors (actor ?s2) = Some (?e # [])"
    by code_simp
  have v2: "yielded ?s2 @ [errors_fragment (?e # [])] = [JObj [(''errors'', JList [JStr ''boom''])]]"
    by code_simp
  have h3: "\<not> ended ?s3 \<and> content_queue (actor ?s3) = [] \<and> \<not> has_errors (actor ?s3)
      \<and> stopped (actor ?s3)"
    by code_simp
  have v3: "yielded ?s3 @ [interrupted_fragment]
      = [JObj [(''errors'', JList [JStr ''Output interrupted''])]]"
    by code_simp
  have h4: "ended ?s4"
    by code_simp
  note t1 = stop_vs_error_fragment [of ?s1 ?e "[]" ?c]
  note t2 = stop_vs_error_fragment [of ?s2 ?e "[]" ?c]
  note t3 = stop_vs_error_fragment [of ?s3 ?e "[]" ?c]
  note t4 = stop_vs_error_fragment [of ?s4 ?e "[]" ?c]
  from t1 h1 have c1: "\<not> ended (get_output_turn ?s1)" by blast
  from t1 h1 h1' have "exec ?c ?s1 (replicate (Suc (length (content_queue (actor ?s1)))) Turn) =
        \<lparr>actor = (actor ?s1)\<lparr>content_queue := []\<rparr>, ended = True,
         yielded = yielded ?s1 @ map (fragment_value (actor ?s1)) (content_queue (actor ?s1))
                     @ finally_fragments (actor ?s1)\<rparr>"
    by blast
  then have c1': "yielded (exec ?c ?s1 (replicate (Suc 1) Turn))
      = [JObj [(''deltas'', JObj [(''output'', JStr ''done'')]),
               (''chunk'', JObj [(''A'', JObj [(''x'', JInt 1)])])],
         JObj [(''errors'', JList [JStr ''boom''])]]"
    unfolding l1 v1 by simp
  from t2 h2 have "get_output_turn ?s2 =
      ?s2\<lparr>ended := True, yielded := yielded ?s2 @ [errors_fragment (?e # [])]\<rparr>"
    by blast
  then have c2: "yielded (get_output_turn ?s2) = [JObj [(''errors'', JList [JStr ''boom''])]]"
    unfolding v2 by simp
  from t3 h3 have "get_output_turn ?s3 =
      ?s3\<lparr>ended := True, yielded := yielded ?s3 @ [interrupted_fragment]\<rparr>"
    by blast
  then have c3: "yielded (get_output_turn ?s3)
      = [JObj [(''errors'', JList [JStr ''Output interrupted''])]]"
    unfolding v3 by simp
  from t4 h4 have c4: "get_output_turn ?s4 = ?s4" by blast
  from h1 h1' c1 c1' h2 c2 h3 c3 h4 c4 show ?thesis by blast
qed

text \<open>
  C8, as the specification states it: the stream ends once all dependencies are satisfied
  and the terminal success fragment has been consumed. It does not: with the one
  dependency \<open>A\<close>, after the content of \<open>A\<close> the consumer is given the terminal
  success fragment, the queue is empty, and the stream is still open.
\<close>

theorem stream_end_condition_counterexample:
  "terminal_pushes plain_collaborators (OutputActor_init [''A''] [] {})
     [content_from ''A'' ''done-A''] = 1
   \<and> yielded (exec plain_collaborators (start (OutputActor_init [''A''] [] {}))
       [Receive (content_from ''A'' ''done-A''), Turn, Turn, Turn])
     = [JObj [(''output'', JObj []), (''chunks'', JObj [(''A'', JStr ''done-A'')])]]
   \<and> content_queue (actor (exec plain_collaborators (start (OutputActor_init [''A''] [] {}))
       [Receive (content_from ''A'' ''done-A''), Turn, Turn, Turn])) = []
   \<and> \<not> ended (exec plain_collaborators (start (OutputActor_init [''A''] [] {}))
       [Receive (content_from ''A'' ''done-A''), Turn, Turn, Turn])"
  by code_simp

text \<open>
  C8, amended. A turn of the consumer ends the stream exactly when the queue is empty and
  a non-empty error list is recorded or the run is stopped. While neither holds, the
  consumer left to itself yields what the queue holds and the stream stays open, however
  many turns it takes and whether or not the dependencies are satisfied.
\<close>

theorem stream_end_condition:
  "(ended (get_output_turn s) \<longleftrightarrow>
      ended s \<or> content_queue (actor s) = [] \<and> (has_errors (actor s) \<or> stopped (actor s)))
   \<and> (\<not> ended s \<and> \<not> has_errors (actor s) \<and> \<not> stopped (actor s) \<longrightarrow>
      \<not> ended (exec c s (replicate n Turn))
      \<and> content_queue (actor (exec c s (replicate n Turn))) = drop n (content_queue (actor s))
      \<and> yielded (exec c s (replicate n Turn)) =
          yielded s @ map (fragment_value (actor s)) (take n (content_queue (actor s))))"
proof (intro conjI impI)
  show "ended (get_output_turn s) \<longleftrightarrow>
      ended s \<or> content_queue (actor s) = [] \<and> (has_errors (actor s) \<or> stopped (actor s))"
    by (auto simp: get_output_turn_def split: list.splits)
next
  assume h: "\<not> ended s \<and> \<not> has_errors (actor s) \<and> \<not> stopped (actor s)"
  then have eq: "exec c s (replicate n Turn) =
     s\<lparr>actor := (actor s)\<lparr>content_queue := drop n (content_queue (actor s))\<rparr>,
       yielded := yielded s @ map (fragment_value (actor s)) (take n (content_queue (actor s)))\<rparr>"
    by (intro turns_open) simp_all
  from h show "\<not> ended (exec c s (replicate n Turn))" unfolding eq by simp
  show "content_queue (actor (exec c s (replicate n Turn))) = drop n (content_queue (actor s))"
    unfolding eq by simp
  show "yielded (exec c s (replicate n Turn)) =
      yielded s @ map (fragment_value (actor s)) (take n (content_queue (actor s)))"
    unfolding eq by simp
qed

theorem stream_end_condition_witness:
  "\<not> ended (exec plain_collaborators (start (OutputActor_init [''A''] [] {}))
       [Receive (content_from ''A'' ''done-A'')])
   \<and> \<not> has_errors (actor (exec plain_collaborators (start (OutputActor_init [''A''] [] {}))
       [Receive (content_from ''A'' ''done-A'')]))
   \<and> \<not> stopped (actor (exec plain_collaborators (start (OutputActor_init [''A''] [] {}))
       [Receive (content_from ''A'' ''done-A'')]))
   \<and> \<not> ended (exec plain_collaborators
       (exec plain_collaborators (start (OutputActor_init [''A''] [] {}))
          [Receive (content_from ''A'' ''done-A'')])
       (replicate 5 Turn))
   \<and> yielded (exec plain_collaborators
       (exec plain_collaborators (start (OutputActor_init [''A''] [] {}))
          [Receive (content_from ''A'' ''done-A'')])
       (replicate 5 Turn))
     = [JObj [(''output'', JObj []), (''chunks'', JObj [(''A'', JStr ''done-A'')])]]"
proof -
  let ?s = "exec plain_collaborators (start (OutputActor_init [''A''] [] {}))
       [Receive (content_from ''A'' ''done-A'')]"
  have h: "\<not> ended ?s \<and> \<not> has_errors (actor ?s) \<and> \<not> stopped (actor ?s)"
    by code_simp
  have v: "yielded ?s @ map (fragment_value (actor ?s)) (take 5 (content_queue (actor ?s)))
      = [JObj [(''output'', JObj []), (''chunks'', JObj [(''A'', JStr ''done-A'')])]]"
    by code_simp
  from stream_end_condition [of ?s plain_collaborators 5] h
  have "\<not> ended (exec plain_collaborators ?s (replicate 5 Turn))
      \<and> yielded (exec plain_collaborators ?s (replicate 5 Turn)) =
          yielded ?s @ map (fragment_value (actor ?s)) (take 5 (content_queue (actor ?s)))"
    by blast
  with h show ?thesis unfolding v by blast
qed

end
